theory Spec2Isabelle
  imports Main "HOL-Library.Word" "HOL-Library.AList"
begin

section \<open>JavaScript strings\<close>

text \<open>
  A JavaScript string is a sequence of UTF-16 code units. The string literals of
  \<^verbatim>\<open>app/client/api.ts\<close> are all ASCII; \<open>lit\<close> embeds such a literal, one code unit
  per character.
\<close>

type_synonym jschar = "16 word"
type_synonym jsstring = "jschar list"

definition lit :: "string \<Rightarrow> jsstring" where
  "lit s = map of_char s"

text \<open>
  \<^verbatim>\<open>String.prototype.trim\<close> removes white space and line terminators from both ends:
  TAB, LF, VT, FF, CR, SP, NBSP, the space separators U+1680, U+2000 to U+200A, U+202F,
  U+205F and U+3000, the separators U+2028 and U+2029, and U+FEFF.
\<close>

definition isWhiteSpace :: "jschar \<Rightarrow> bool" where
  "isWhiteSpace c \<longleftrightarrow>
     c = 0x0009 \<or> c = 0x000A \<or> c = 0x000B \<or> c = 0x000C \<or> c = 0x000D \<or>
     c = 0x0020 \<or> c = 0x00A0 \<or> c = 0x1680 \<or> (0x2000 \<le> c \<and> c \<le> 0x200A) \<or>
     c = 0x2028 \<or> c = 0x2029 \<or> c = 0x202F \<or> c = 0x205F \<or> c = 0x3000 \<or> c = 0xFEFF"

definition trim :: "jsstring \<Rightarrow> jsstring" where
  "trim s = rev (dropWhile isWhiteSpace (rev (dropWhile isWhiteSpace s)))"

text \<open>\<^verbatim>\<open>s.startsWith(p)\<close>\<close>

fun startsWith :: "jsstring \<Rightarrow> jsstring \<Rightarrow> bool" where
  "startsWith s [] = True"
| "startsWith [] (p # ps) = False"
| "startsWith (c # cs) (p # ps) = (c = p \<and> startsWith cs ps)"


section \<open>The header builder: \<^verbatim>\<open>getHeaders\<close>\<close>

text \<open>
  Modelled from the spec: the enum \<^verbatim>\<open>ServiceProvider\<close> is declared in
  \<^verbatim>\<open>app/constant\<close>, which is not among the sources. \<^verbatim>\<open>getHeaders\<close> only compares the
  selected provider with \<^verbatim>\<open>ServiceProvider.Azure\<close> (the spec's enterprise variant); every
  other member is kept by its name.
\<close>

datatype ServiceProvider = Azure | OtherServiceProvider jsstring

text \<open>
  The state of the access store that \<^verbatim>\<open>getHeaders\<close> reads through
  \<^verbatim>\<open>useAccessStore.getState()\<close>. The store's method \<^verbatim>\<open>enabledAccessControl()\<close> is
  external; the field of that name holds what the call returns in this state.
\<close>

record AccessStore =
  provider :: ServiceProvider
  openaiApiKey :: jsstring
  azureApiKey :: jsstring
  googleApiKey :: jsstring
  accessCode :: jsstring
  isUseOpenAIEndpointForAllModels :: bool
  enabledAccessControl :: bool

text \<open>A header mapping \<^verbatim>\<open>Record<string, string>\<close>: its entries in insertion order;
  \<^verbatim>\<open>headers[k] = v\<close> is \<^const>\<open>AList.update\<close>, reading is \<^const>\<open>map_of\<close>.\<close>

type_synonym Headers = "(jsstring \<times> jsstring) list"

text \<open>The local constants of \<^verbatim>\<open>getHeaders\<close>, in the order of the source. The model name
  is \<^verbatim>\<open>useChatStore.getState().currentSession().mask.modelConfig.model\<close>.\<close>

definition isGoogle :: "AccessStore \<Rightarrow> jsstring \<Rightarrow> bool" where
  "isGoogle accessStore model \<longleftrightarrow>
     startsWith model (lit ''gemini'') \<and> \<not> isUseOpenAIEndpointForAllModels accessStore"

definition isAzure :: "AccessStore \<Rightarrow> bool" where
  "isAzure accessStore \<longleftrightarrow> provider accessStore = Azure"

definition apiKey :: "AccessStore \<Rightarrow> jsstring \<Rightarrow> jsstring" where
  "apiKey accessStore model =
     (if isGoogle accessStore model then googleApiKey accessStore
      else if isAzure accessStore then azureApiKey accessStore
      else openaiApiKey accessStore)"

definition makeBearer :: "AccessStore \<Rightarrow> jsstring \<Rightarrow> jsstring \<Rightarrow> jsstring" where
  "makeBearer accessStore model s =
     (if isGoogle accessStore model \<or> isAzure accessStore then [] else lit ''Bearer '') @ trim s"

text \<open>\<^verbatim>\<open>validString = (x: string) => x && x.length > 0\<close>, read as a condition.\<close>

definition validString :: "jsstring \<Rightarrow> bool" where
  "validString x \<longleftrightarrow> x \<noteq> [] \<and> length x > 0"

text \<open>
  \<^verbatim>\<open>getHeaders(ignoreHeaders?: boolean)\<close>. The parameter is optional: \<open>None\<close> is
  \<^verbatim>\<open>undefined\<close>. The constant \<^verbatim>\<open>ACCESS_CODE_PREFIX\<close> of \<^verbatim>\<open>app/constant\<close> is not among
  the sources and is a parameter.
\<close>

definition getHeaders :: "jsstring \<Rightarrow> AccessStore \<Rightarrow> jsstring \<Rightarrow> bool option \<Rightarrow> Headers" where
  "getHeaders ACCESS_CODE_PREFIX accessStore model ignoreHeaders =
     (let headers =
            (if ignoreHeaders \<noteq> Some True \<and> \<not> isGoogle accessStore model
             then [(lit ''Content-Type'', lit ''application/json''),
                   (lit ''x-requested-with'', lit ''XMLHttpRequest''),
                   (lit ''Accept'', lit ''application/json'')]
             else []);
          authHeader = lit ''Authorization''
      in if validString (apiKey accessStore model) then
           let authHeader = (if isGoogle accessStore model then lit ''x-goog-api-key''
                             else authHeader);
               headers = AList.update authHeader
                           (makeBearer accessStore model (apiKey accessStore model)) headers
           in if isAzure accessStore
              then AList.update (lit ''api-key'')
                     (makeBearer accessStore model (apiKey accessStore model)) headers
              else headers
         else if enabledAccessControl accessStore \<and> validString (accessCode accessStore) then
           AList.update authHeader
             (makeBearer accessStore model (ACCESS_CODE_PREFIX @ accessCode accessStore)) headers
         else headers)"


section \<open>The client facade: \<^verbatim>\<open>ClientApi\<close>\<close>

text \<open>
  Modelled from the spec: the enum \<^verbatim>\<open>ModelProvider\<close> is declared in \<^verbatim>\<open>app/constant\<close>,
  which is not among the sources. The constructor names its members \<^verbatim>\<open>GPT\<close>,
  \<^verbatim>\<open>GeminiPro\<close> and \<^verbatim>\<open>Claude\<close>; any other member is kept by its name.
\<close>

datatype ModelProvider = GPT | GeminiPro | Claude | OtherModelProvider jsstring

text \<open>The provider clients and the file component are external classes, built without
  arguments; an instance is identified by its class.\<close>

datatype LLMApi = ChatGPTApi | GeminiProApi | ClaudeApi

datatype FileApi = FileApi

record ClientApi =
  llm :: LLMApi
  file_api :: FileApi

text \<open>\<^verbatim>\<open>constructor(provider: ModelProvider = ModelProvider.GPT)\<close>: \<open>None\<close> is a call
  without the argument, for which the default applies.\<close>

definition ClientApi_constructor :: "ModelProvider option \<Rightarrow> ClientApi" where
  "ClientApi_constructor arg =
     (let provider = (case arg of None \<Rightarrow> GPT | Some p \<Rightarrow> p)
      in \<lparr>llm = (case provider of
                  GeminiPro \<Rightarrow> GeminiProApi
                | Claude \<Rightarrow> ClaudeApi
                | _ \<Rightarrow> ChatGPTApi),
          file_api = FileApi\<rparr>)"


subsection \<open>Messages and the share payload\<close>

datatype MessageRole = System | User | Assistant

datatype ContentType = TextType | ImageUrlType

record MultimodalContent =
  type :: ContentType
  text_field :: "jsstring option"
  image_url :: "jsstring option"

datatype Content = Text jsstring | Parts "MultimodalContent list"

text \<open>Of a \<^verbatim>\<open>ChatMessage\<close> (declared in the store), \<^verbatim>\<open>share\<close> reads the role and the content.\<close>

record ChatMessage =
  role :: MessageRole
  content :: Content

record ShareItem =
  item_from :: jsstring
  item_value :: Content

text \<open>The constant \<^verbatim>\<open>msgs\<close> of \<^verbatim>\<open>share\<close>.\<close>

definition msgs :: "ChatMessage list \<Rightarrow> ShareItem list" where
  "msgs messages =
     map (\<lambda>m. \<lparr>item_from = (if role m = User then lit ''human'' else lit ''gpt''),
               item_value = content m\<rparr>) messages
     @ [\<lparr>item_from = lit ''human'',
         item_value =
           Text (lit ''Share from [NextChat]: https://github.com/Yidadaa/ChatGPT-Next-Web'')\<rparr>]"


subsection \<open>The response of the share endpoint\<close>

text \<open>
  What \<^verbatim>\<open>res.json()\<close> can resolve to. Numbers are IEEE doubles; their type is a parameter
  \<open>'n\<close>, with their truthiness and \<^verbatim>\<open>Number::toString\<close> as parameters of the functions
  below. An object is the list of its members in the order of the text, where a later
  member of the same name replaces an earlier one.
\<close>

datatype 'n json =
    JNull
  | JBool bool
  | JNum 'n
  | JStr jsstring
  | JArr "'n json list"
  | JObj "(jsstring \<times> 'n json) list"

datatype error = FetchError | JsonError | TypeError

text \<open>\<^verbatim>\<open>resJson.id\<close>: reading a property of \<^verbatim>\<open>null\<close> throws a TypeError; a primitive or an
  array has no property \<^verbatim>\<open>id\<close>; \<open>None\<close> is \<^verbatim>\<open>undefined\<close>.\<close>

fun get_id :: "'n json \<Rightarrow> error + 'n json option" where
  "get_id JNull = Inl TypeError"
| "get_id (JObj members) = Inr (map_of (rev members) (lit ''id''))"
| "get_id _ = Inr None"

text \<open>The condition \<^verbatim>\<open>if (v)\<close>.\<close>

fun truthy :: "('n \<Rightarrow> bool) \<Rightarrow> 'n json option \<Rightarrow> bool" where
  "truthy numTruthy None = False"
| "truthy numTruthy (Some JNull) = False"
| "truthy numTruthy (Some (JBool b)) = b"
| "truthy numTruthy (Some (JNum n)) = numTruthy n"
| "truthy numTruthy (Some (JStr s)) = (s \<noteq> [])"
| "truthy numTruthy (Some (JArr xs)) = True"
| "truthy numTruthy (Some (JObj members)) = True"

text \<open>\<^verbatim>\<open>Array.prototype.join\<close> with the separator \<^verbatim>\<open>","\<close>, over the conversions of the
  elements; the first conversion that throws ends it.\<close>

fun join :: "(error + jsstring) list \<Rightarrow> error + jsstring" where
  "join [] = Inr []"
| "join [r] = r"
| "join (r # rs) =
     (case r of
        Inl e \<Rightarrow> Inl e
      | Inr s \<Rightarrow> (case join rs of Inl e \<Rightarrow> Inl e | Inr t \<Rightarrow> Inr (s @ lit '','' @ t)))"

text \<open>
  The conversion of a template literal, \<^verbatim>\<open>`${v}`\<close>. An array is joined, its \<^verbatim>\<open>null\<close>
  elements as empty strings. An object is \<^verbatim>\<open>[object Object]\<close>, unless it has a member
  \<^verbatim>\<open>toString\<close> of its own: that member is not callable, and neither it nor \<^verbatim>\<open>valueOf\<close>
  yields a primitive, which is a TypeError.
\<close>

fun ToString :: "('n \<Rightarrow> jsstring) \<Rightarrow> 'n json \<Rightarrow> error + jsstring" where
  "ToString numToString JNull = Inr (lit ''null'')"
| "ToString numToString (JBool b) = Inr (if b then lit ''true'' else lit ''false'')"
| "ToString numToString (JNum n) = Inr (numToString n)"
| "ToString numToString (JStr s) = Inr s"
| "ToString numToString (JArr xs) =
     join (map (\<lambda>x. if x = JNull then Inr [] else ToString numToString x) xs)"
| "ToString numToString (JObj members) =
     (if lit ''toString'' \<in> fst ` set members then Inl TypeError
      else Inr (lit ''[object Object]''))"


subsection \<open>\<^verbatim>\<open>ClientApi.share\<close>\<close>

record ClientConfig =
  isApp :: bool

record ShareBody =
  avatarUrl :: "jsstring option"
  items :: "ShareItem list"

record Request =
  url :: jsstring
  body :: ShareBody
  headers :: Headers
  http_method :: jsstring

text \<open>What the two awaited calls, \<^verbatim>\<open>fetch(...)\<close> and \<^verbatim>\<open>res.json()\<close>, come to: either
  rejects, or the body parses to a JSON value.\<close>

datatype 'n outcome = FetchRejected | JsonRejected | Json "'n json"

text \<open>
  The request that \<^verbatim>\<open>share\<close> hands to \<^verbatim>\<open>fetch\<close>. The result of \<^verbatim>\<open>getClientConfig()\<close>
  is the parameter \<open>clientConfig\<close> (\<open>None\<close> when there is none); the body is kept as the
  object given to \<^verbatim>\<open>JSON.stringify\<close>; \<open>avatar\<close> is the argument \<^verbatim>\<open>avatarUrl\<close>, \<open>None\<close>
  for \<^verbatim>\<open>null\<close>.
\<close>

definition share_request :: "ClientConfig option \<Rightarrow> ChatMessage list \<Rightarrow> jsstring option \<Rightarrow> Request"
  where
  "share_request clientConfig messages avatar =
     (let proxyUrl = lit ''/sharegpt'';
          rawUrl = lit ''https://sharegpt.com/api/conversations'';
          shareUrl = (if (case clientConfig of None \<Rightarrow> False | Some c \<Rightarrow> isApp c)
                      then rawUrl else proxyUrl)
      in \<lparr>url = shareUrl,
          body = \<lparr>avatarUrl = avatar, items = msgs messages\<rparr>,
          headers = [(lit ''Content-Type'', lit ''application/json'')],
          http_method = lit ''POST''\<rparr>)"

text \<open>
  \<^verbatim>\<open>share(messages, avatarUrl = null)\<close>. The network is the parameter \<open>fetch\<close>. The result
  \<open>Inr (Some u)\<close> is a promise resolved to the string \<open>u\<close>, \<open>Inr None\<close> one resolved to
  \<^verbatim>\<open>undefined\<close>, and \<open>Inl e\<close> a rejected one. An \<^verbatim>\<open>undefined\<close> id is falsy.
\<close>

definition share ::
  "('n \<Rightarrow> bool) \<Rightarrow> ('n \<Rightarrow> jsstring) \<Rightarrow> ClientConfig option \<Rightarrow> (Request \<Rightarrow> 'n outcome) \<Rightarrow>
   ChatMessage list \<Rightarrow> jsstring option \<Rightarrow> error + jsstring option" where
  "share numTruthy numToString clientConfig fetch messages avatar =
     (case fetch (share_request clientConfig messages avatar) of
        FetchRejected \<Rightarrow> Inl FetchError
      | JsonRejected \<Rightarrow> Inl JsonError
      | Json resJson \<Rightarrow>
          (case get_id resJson of
             Inl e \<Rightarrow> Inl e
           | Inr None \<Rightarrow> Inr None
           | Inr (Some v) \<Rightarrow>
               if truthy numTruthy (Some v) then
                 (case ToString numToString v of
                    Inl e \<Rightarrow> Inl e
                  | Inr s \<Rightarrow> Inr (Some (lit ''https://shareg.pt/'' @ s)))
               else Inr None))"


section \<open>Properties of the header builder\<close>

lemma header_names_distinct:
  "lit ''Authorization'' \<noteq> lit ''api-key''"
  "lit ''api-key'' \<noteq> lit ''Authorization''"
  "lit ''x-goog-api-key'' \<noteq> lit ''api-key''"
  "lit ''api-key'' \<noteq> lit ''x-goog-api-key''"
  "lit ''x-goog-api-key'' \<noteq> lit ''Authorization''"
  "lit ''Authorization'' \<noteq> lit ''x-goog-api-key''"
  by (simp_all add: lit_def)

lemma baseline_names_distinct:
  "lit ''Content-Type'' \<noteq> lit ''Authorization''"
  "lit ''Content-Type'' \<noteq> lit ''x-goog-api-key''"
  "lit ''Content-Type'' \<noteq> lit ''api-key''"
  "lit ''x-requested-with'' \<noteq> lit ''Authorization''"
  "lit ''x-requested-with'' \<noteq> lit ''x-goog-api-key''"
  "lit ''x-requested-with'' \<noteq> lit ''api-key''"
  "lit ''Accept'' \<noteq> lit ''Authorization''"
  "lit ''Accept'' \<noteq> lit ''x-goog-api-key''"
  "lit ''Accept'' \<noteq> lit ''api-key''"
  "lit ''Content-Type'' \<noteq> lit ''x-requested-with''"
  "lit ''Content-Type'' \<noteq> lit ''Accept''"
  "lit ''x-requested-with'' \<noteq> lit ''Accept''"
  "lit ''x-requested-with'' \<noteq> lit ''Content-Type''"
  "lit ''Accept'' \<noteq> lit ''Content-Type''"
  "lit ''Accept'' \<noteq> lit ''x-requested-with''"
  by (simp_all add: lit_def)

lemma isGoogle_access_update:
  "isGoogle (accessStore\<lparr>accessCode := code, enabledAccessControl := enabled\<rparr>) model
     = isGoogle accessStore model"
  by (simp add: isGoogle_def)

lemma isAzure_access_update:
  "isAzure (accessStore\<lparr>accessCode := code, enabledAccessControl := enabled\<rparr>)
     = isAzure accessStore"
  by (simp add: isAzure_def)

lemma apiKey_access_update:
  "apiKey (accessStore\<lparr>accessCode := code, enabledAccessControl := enabled\<rparr>) model
     = apiKey accessStore model"
  by (simp add: apiKey_def isGoogle_access_update isAzure_access_update)

lemma makeBearer_access_update:
  "makeBearer (accessStore\<lparr>accessCode := code, enabledAccessControl := enabled\<rparr>) model s
     = makeBearer accessStore model s"
  by (simp add: makeBearer_def isGoogle_access_update isAzure_access_update)

lemma getHeaders_key_shadows_access_code:
  assumes "validString (apiKey accessStore model)"
  shows "getHeaders pfx' (accessStore\<lparr>accessCode := code, enabledAccessControl := enabled\<rparr>)
           model ignoreHeaders
         = getHeaders pfx accessStore model ignoreHeaders"
  using assms
  by (simp add: getHeaders_def Let_def isGoogle_access_update isAzure_access_update
      apiKey_access_update makeBearer_access_update)

lemma getHeaders_key_entry:
  assumes "validString (apiKey accessStore model)"
  shows "map_of (getHeaders pfx accessStore model ignoreHeaders)
           (if isGoogle accessStore model then lit ''x-goog-api-key'' else lit ''Authorization'')
         = Some (makeBearer accessStore model (apiKey accessStore model))"
  using assms
  by (simp add: getHeaders_def Let_def update_conv' header_names_distinct)

text \<open>
  C1. Whenever the API key resolved for the request's provider family is a non-empty
  string, the returned mapping carries the credential made from that key (under the
  header name of the family, with or without the bearer prefix), and the result is the
  same for every access code, every access code prefix and either answer of
  \<^verbatim>\<open>enabledAccessControl()\<close>: the access code is never used.
\<close>

theorem getHeaders_prefers_api_key:
  assumes "validString (apiKey accessStore model)"
  shows "map_of (getHeaders pfx accessStore model ignoreHeaders)
           (if isGoogle accessStore model then lit ''x-goog-api-key'' else lit ''Authorization'')
         = Some ((if isGoogle accessStore model \<or> isAzure accessStore then [] else lit ''Bearer '')
                 @ trim (apiKey accessStore model))
       \<and> getHeaders pfx' (accessStore\<lparr>accessCode := code, enabledAccessControl := enabled\<rparr>)
           model ignoreHeaders
         = getHeaders pfx accessStore model ignoreHeaders"
  using getHeaders_key_entry [OF assms] getHeaders_key_shadows_access_code [OF assms]
  by (simp add: makeBearer_def)

theorem getHeaders_prefers_api_key_witness:
  "validString (apiKey
      \<lparr>provider = OtherServiceProvider (lit ''OpenAI''), openaiApiKey = lit ''sk-1'',
       azureApiKey = [], googleApiKey = [], accessCode = lit ''abc'',
       isUseOpenAIEndpointForAllModels = False, enabledAccessControl = True\<rparr> (lit ''gpt-4''))
   \<and> map_of (getHeaders (lit ''nk-'')
      \<lparr>provider = OtherServiceProvider (lit ''OpenAI''), openaiApiKey = lit ''sk-1'',
       azureApiKey = [], googleApiKey = [], accessCode = lit ''abc'',
       isUseOpenAIEndpointForAllModels = False, enabledAccessControl = True\<rparr> (lit ''gpt-4'') None)
      (lit ''Authorization'') = Some (lit ''Bearer sk-1'')
   \<and> getHeaders (lit ''nk-'')
      \<lparr>provider = OtherServiceProvider (lit ''OpenAI''), openaiApiKey = lit ''sk-1'',
       azureApiKey = [], googleApiKey = [], accessCode = lit ''abc'',
       isUseOpenAIEndpointForAllModels = False, enabledAccessControl = True\<rparr> (lit ''gpt-4'') None
     = getHeaders (lit ''nk-'')
      \<lparr>provider = OtherServiceProvider (lit ''OpenAI''), openaiApiKey = lit ''sk-1'',
       azureApiKey = [], googleApiKey = [], accessCode = [],
       isUseOpenAIEndpointForAllModels = False, enabledAccessControl = False\<rparr> (lit ''gpt-4'') None"
proof -
  let ?st = "\<lparr>provider = OtherServiceProvider (lit ''OpenAI''), openaiApiKey = lit ''sk-1'',
       azureApiKey = [], googleApiKey = [], accessCode = [],
       isUseOpenAIEndpointForAllModels = False, enabledAccessControl = False\<rparr>"
  have k: "validString (apiKey ?st (lit ''gpt-4''))"
    by (simp add: validString_def apiKey_def isGoogle_def isAzure_def lit_def)
  show ?thesis
    using k getHeaders_prefers_api_key [OF k, where pfx = "lit ''nk-''" and pfx' = "lit ''nk-''"
        and ignoreHeaders = None and code = "lit ''abc''" and enabled = True]
    by (simp add: validString_def apiKey_def isGoogle_def isAzure_def lit_def trim_def isWhiteSpace_def)
qed


lemma trim_all_white: "\<forall>c\<in>set s. isWhiteSpace c \<Longrightarrow> trim s = []"
proof -
  assume "\<forall>c\<in>set s. isWhiteSpace c"
  then have "dropWhile isWhiteSpace s = []"
    by (simp add: dropWhile_eq_Nil_conv)
  then show "trim s = []"
    unfolding trim_def by (simp del: dropWhile_eq_Nil_conv)
qed

lemma getHeaders_access_code_entry:
  assumes "\<not> validString (apiKey accessStore model)"
    and "enabledAccessControl accessStore" and "validString (accessCode accessStore)"
  shows "getHeaders pfx accessStore model ignoreHeaders
         = AList.update (lit ''Authorization'')
             (makeBearer accessStore model (pfx @ accessCode accessStore))
             (if ignoreHeaders \<noteq> Some True \<and> \<not> isGoogle accessStore model
              then [(lit ''Content-Type'', lit ''application/json''),
                    (lit ''x-requested-with'', lit ''XMLHttpRequest''),
                    (lit ''Accept'', lit ''application/json'')]
              else [])"
  using assms by (simp add: getHeaders_def Let_def)

lemma getHeaders_nothing:
  assumes "\<not> validString (apiKey accessStore model)"
    and "\<not> (enabledAccessControl accessStore \<and> validString (accessCode accessStore))"
  shows "getHeaders pfx accessStore model ignoreHeaders
         = (if ignoreHeaders \<noteq> Some True \<and> \<not> isGoogle accessStore model
            then [(lit ''Content-Type'', lit ''application/json''),
                  (lit ''x-requested-with'', lit ''XMLHttpRequest''),
                  (lit ''Accept'', lit ''application/json'')]
            else [])"
proof -
  have "(enabledAccessControl accessStore \<and> validString (accessCode accessStore)) = False"
    using assms(2) by simp
  with assms(1) show ?thesis
    by (simp only: getHeaders_def Let_def if_False)
qed

lemma validString_iff: "validString x \<longleftrightarrow> x \<noteq> []"
  by (simp add: validString_def)

text \<open>
  C2 (amended). When the resolved API key is empty, access control is enabled and an access
  code is present, the credential is emitted under \<^verbatim>\<open>Authorization\<close>: it is the prefix
  followed by the access code, trimmed, and it is preceded by \<^verbatim>\<open>Bearer \<close> exactly when
  neither the model resolves to the Google family nor the selected provider is Azure.
\<close>

theorem getHeaders_access_code_credential:
  assumes "apiKey accessStore model = []"
    and "enabledAccessControl accessStore" and "accessCode accessStore \<noteq> []"
  shows "map_of (getHeaders pfx accessStore model ignoreHeaders) (lit ''Authorization'')
         = Some ((if isGoogle accessStore model \<or> isAzure accessStore then [] else lit ''Bearer '')
                 @ trim (pfx @ accessCode accessStore))"
proof -
  have "\<not> validString (apiKey accessStore model)" "validString (accessCode accessStore)"
    using assms by (simp_all add: validString_iff)
  from getHeaders_access_code_entry [OF this(1) assms(2) this(2)]
  show ?thesis by (simp add: update_conv' makeBearer_def)
qed

theorem getHeaders_access_code_credential_witness:
  "apiKey \<lparr>provider = Azure, openaiApiKey = [], azureApiKey = [], googleApiKey = [],
           accessCode = lit ''abc '', isUseOpenAIEndpointForAllModels = False,
           enabledAccessControl = True\<rparr> (lit ''gpt-4'') = []
   \<and> map_of (getHeaders (lit ''nk-'')
          \<lparr>provider = Azure, openaiApiKey = [], azureApiKey = [], googleApiKey = [],
           accessCode = lit ''abc '', isUseOpenAIEndpointForAllModels = False,
           enabledAccessControl = True\<rparr> (lit ''gpt-4'') None) (lit ''Authorization'')
     = Some (lit ''nk-abc'')"
proof -
  let ?st = "\<lparr>provider = Azure, openaiApiKey = [], azureApiKey = [], googleApiKey = [],
           accessCode = lit ''abc '', isUseOpenAIEndpointForAllModels = False,
           enabledAccessControl = True\<rparr>"
  have k: "apiKey ?st (lit ''gpt-4'') = []"
    by (simp add: apiKey_def isGoogle_def isAzure_def lit_def)
  have e: "enabledAccessControl ?st" by simp
  have c: "accessCode ?st \<noteq> []" by (simp add: lit_def)
  show ?thesis
    using k getHeaders_access_code_credential [OF k e c, where pfx = "lit ''nk-''"
        and ignoreHeaders = None]
    by (simp add: isGoogle_def isAzure_def lit_def trim_def isWhiteSpace_def)
qed

text \<open>
  The bearer format of the access-code path is not determined by the selected provider
  alone: with the same store, a Gemini model loses the \<^verbatim>\<open>Bearer \<close> prefix.
\<close>

theorem getHeaders_bearer_format_counterexample:
  "map_of (getHeaders (lit ''nk-'')
      \<lparr>provider = OtherServiceProvider (lit ''OpenAI''), openaiApiKey = [], azureApiKey = [],
       googleApiKey = [], accessCode = lit ''abc'', isUseOpenAIEndpointForAllModels = False,
       enabledAccessControl = True\<rparr> (lit ''gpt-4'') None) (lit ''Authorization'')
     = Some (lit ''Bearer nk-abc'')
   \<and> map_of (getHeaders (lit ''nk-'')
      \<lparr>provider = OtherServiceProvider (lit ''OpenAI''), openaiApiKey = [], azureApiKey = [],
       googleApiKey = [], accessCode = lit ''abc'', isUseOpenAIEndpointForAllModels = False,
       enabledAccessControl = True\<rparr> (lit ''gemini-pro'') None) (lit ''Authorization'')
     = Some (lit ''nk-abc'')"
  by (simp add: getHeaders_def Let_def validString_def apiKey_def makeBearer_def isGoogle_def
      isAzure_def lit_def trim_def isWhiteSpace_def)

lemma getHeaders_google_key:
  assumes "isGoogle accessStore model" and "validString (apiKey accessStore model)"
  shows "getHeaders pfx accessStore model ignoreHeaders
         = (if isAzure accessStore
            then [(lit ''x-goog-api-key'', trim (apiKey accessStore model)),
                  (lit ''api-key'', trim (apiKey accessStore model))]
            else [(lit ''x-goog-api-key'', trim (apiKey accessStore model))])"
  using assms by (simp add: getHeaders_def Let_def makeBearer_def header_names_distinct)

text \<open>
  C3 (amended). When the model name starts with \<^verbatim>\<open>gemini\<close> and the override flag is
  unset, a credential made from a non-empty Google API key is placed under
  \<^verbatim>\<open>x-goog-api-key\<close>, and there is no \<^verbatim>\<open>Authorization\<close> entry; a credential made from
  the access code (no Google key, access control enabled, a code present) is placed
  under \<^verbatim>\<open>Authorization\<close>, and there is no \<^verbatim>\<open>x-goog-api-key\<close> entry.
\<close>

theorem getHeaders_google_header_name:
  assumes "startsWith model (lit ''gemini'')"
    and "\<not> isUseOpenAIEndpointForAllModels accessStore"
  shows "(googleApiKey accessStore \<noteq> [] \<longrightarrow>
            map_of (getHeaders pfx accessStore model ignoreHeaders) (lit ''x-goog-api-key'')
              = Some (trim (googleApiKey accessStore))
          \<and> map_of (getHeaders pfx accessStore model ignoreHeaders) (lit ''Authorization'')
              = None)
       \<and> (googleApiKey accessStore = [] \<and> enabledAccessControl accessStore
            \<and> accessCode accessStore \<noteq> [] \<longrightarrow>
            map_of (getHeaders pfx accessStore model ignoreHeaders) (lit ''Authorization'')
              = Some (trim (pfx @ accessCode accessStore))
          \<and> map_of (getHeaders pfx accessStore model ignoreHeaders) (lit ''x-goog-api-key'')
              = None)"
proof -
  have g: "isGoogle accessStore model"
    using assms by (simp add: isGoogle_def)
  then have k: "apiKey accessStore model = googleApiKey accessStore"
    by (simp add: apiKey_def)
  show ?thesis
  proof (intro conjI impI)
    assume "googleApiKey accessStore \<noteq> []"
    then have v: "validString (apiKey accessStore model)"
      by (simp add: k validString_iff)
    show "map_of (getHeaders pfx accessStore model ignoreHeaders) (lit ''x-goog-api-key'')
            = Some (trim (googleApiKey accessStore))"
      by (simp add: getHeaders_google_key [OF g v] k header_names_distinct)
    show "map_of (getHeaders pfx accessStore model ignoreHeaders) (lit ''Authorization'') = None"
      by (simp add: getHeaders_google_key [OF g v] header_names_distinct)
  next
    assume a: "googleApiKey accessStore = [] \<and> enabledAccessControl accessStore
                 \<and> accessCode accessStore \<noteq> []"
    then have n: "\<not> validString (apiKey accessStore model)"
      and e: "enabledAccessControl accessStore"
      and c: "validString (accessCode accessStore)"
      by (simp_all add: k validString_iff)
    show "map_of (getHeaders pfx accessStore model ignoreHeaders) (lit ''Authorization'')
            = Some (trim (pfx @ accessCode accessStore))"
      by (simp add: getHeaders_access_code_entry [OF n e c] g makeBearer_def)
    show "map_of (getHeaders pfx accessStore model ignoreHeaders) (lit ''x-goog-api-key'') = None"
      by (simp add: getHeaders_access_code_entry [OF n e c] g header_names_distinct)
  qed
qed

theorem getHeaders_google_header_name_witness:
  "startsWith (lit ''gemini-pro'') (lit ''gemini'')
   \<and> googleApiKey \<lparr>provider = OtherServiceProvider (lit ''Google''), openaiApiKey = [],
        azureApiKey = [], googleApiKey = lit ''AIza-1'', accessCode = [],
        isUseOpenAIEndpointForAllModels = False, enabledAccessControl = False\<rparr> \<noteq> []
   \<and> map_of (getHeaders (lit ''nk-'')
        \<lparr>provider = OtherServiceProvider (lit ''Google''), openaiApiKey = [],
         azureApiKey = [], googleApiKey = lit ''AIza-1'', accessCode = [],
         isUseOpenAIEndpointForAllModels = False, enabledAccessControl = False\<rparr>
        (lit ''gemini-pro'') None) (lit ''x-goog-api-key'') = Some (lit ''AIza-1'')
   \<and> map_of (getHeaders (lit ''nk-'')
        \<lparr>provider = OtherServiceProvider (lit ''Google''), openaiApiKey = [],
         azureApiKey = [], googleApiKey = lit ''AIza-1'', accessCode = [],
         isUseOpenAIEndpointForAllModels = False, enabledAccessControl = False\<rparr>
        (lit ''gemini-pro'') None) (lit ''Authorization'') = None
   \<and> accessCode \<lparr>provider = OtherServiceProvider (lit ''Google''), openaiApiKey = [],
        azureApiKey = [], googleApiKey = [], accessCode = lit ''s3cret'',
        isUseOpenAIEndpointForAllModels = False, enabledAccessControl = True\<rparr> \<noteq> []
   \<and> map_of (getHeaders (lit ''nk-'')
        \<lparr>provider = OtherServiceProvider (lit ''Google''), openaiApiKey = [],
         azureApiKey = [], googleApiKey = [], accessCode = lit ''s3cret'',
         isUseOpenAIEndpointForAllModels = False, enabledAccessControl = True\<rparr>
        (lit ''gemini-pro'') None) (lit ''Authorization'') = Some (lit ''nk-s3cret'')
   \<and> map_of (getHeaders (lit ''nk-'')
        \<lparr>provider = OtherServiceProvider (lit ''Google''), openaiApiKey = [],
         azureApiKey = [], googleApiKey = [], accessCode = lit ''s3cret'',
         isUseOpenAIEndpointForAllModels = False, enabledAccessControl = True\<rparr>
        (lit ''gemini-pro'') None) (lit ''x-goog-api-key'') = None"
proof -
  let ?st = "\<lparr>provider = OtherServiceProvider (lit ''Google''), openaiApiKey = [],
         azureApiKey = [], googleApiKey = lit ''AIza-1'', accessCode = [],
         isUseOpenAIEndpointForAllModels = False, enabledAccessControl = False\<rparr>"
  let ?st' = "\<lparr>provider = OtherServiceProvider (lit ''Google''), openaiApiKey = [],
         azureApiKey = [], googleApiKey = [], accessCode = lit ''s3cret'',
         isUseOpenAIEndpointForAllModels = False, enabledAccessControl = True\<rparr>"
  have m: "startsWith (lit ''gemini-pro'') (lit ''gemini'')"
    by (simp add: lit_def)
  have f: "\<not> isUseOpenAIEndpointForAllModels ?st" by simp
  have f': "\<not> isUseOpenAIEndpointForAllModels ?st'" by simp
  have k: "googleApiKey ?st \<noteq> []" by (simp add: lit_def)
  have c: "accessCode ?st' \<noteq> []" by (simp add: lit_def)
  have key_case:
    "map_of (getHeaders (lit ''nk-'') ?st (lit ''gemini-pro'') None) (lit ''x-goog-api-key'')
       = Some (lit ''AIza-1'')
     \<and> map_of (getHeaders (lit ''nk-'') ?st (lit ''gemini-pro'') None) (lit ''Authorization'')
       = None"
    using k getHeaders_google_header_name [OF m f, where pfx = "lit ''nk-''"
        and ignoreHeaders = None]
    by (simp add: lit_def trim_def isWhiteSpace_def)
  have code_case:
    "map_of (getHeaders (lit ''nk-'') ?st' (lit ''gemini-pro'') None) (lit ''Authorization'')
       = Some (lit ''nk-s3cret'')
     \<and> map_of (getHeaders (lit ''nk-'') ?st' (lit ''gemini-pro'') None) (lit ''x-goog-api-key'')
       = None"
    using c getHeaders_google_header_name [OF m f', where pfx = "lit ''nk-''"
        and ignoreHeaders = None]
    by (simp add: lit_def trim_def isWhiteSpace_def)
  show ?thesis
    using m k c key_case code_case by simp
qed

text \<open>
  For a Gemini model without a Google key, the credential of the access code is emitted
  under the generic name, not under the vendor's.
\<close>

theorem getHeaders_google_access_code_counterexample:
  "map_of (getHeaders (lit ''nk-'')
      \<lparr>provider = OtherServiceProvider (lit ''Google''), openaiApiKey = [], azureApiKey = [],
       googleApiKey = [], accessCode = lit ''abc'', isUseOpenAIEndpointForAllModels = False,
       enabledAccessControl = True\<rparr> (lit ''gemini-pro'') None) (lit ''x-goog-api-key'')
     = None
   \<and> map_of (getHeaders (lit ''nk-'')
      \<lparr>provider = OtherServiceProvider (lit ''Google''), openaiApiKey = [], azureApiKey = [],
       googleApiKey = [], accessCode = lit ''abc'', isUseOpenAIEndpointForAllModels = False,
       enabledAccessControl = True\<rparr> (lit ''gemini-pro'') None) (lit ''Authorization'')
     = Some (lit ''nk-abc'')"
  by (simp add: getHeaders_def Let_def validString_def apiKey_def makeBearer_def isGoogle_def
      isAzure_def lit_def trim_def isWhiteSpace_def)


lemma getHeaders_keeps_baseline:
  assumes "k \<noteq> lit ''Authorization''" and "k \<noteq> lit ''x-goog-api-key''"
    and "k \<noteq> lit ''api-key''"
  shows "map_of (getHeaders pfx accessStore model ignoreHeaders) k
         = map_of (if ignoreHeaders \<noteq> Some True \<and> \<not> isGoogle accessStore model
              then [(lit ''Content-Type'', lit ''application/json''),
                    (lit ''x-requested-with'', lit ''XMLHttpRequest''),
                    (lit ''Accept'', lit ''application/json'')]
              else []) k"
proof -
  define base where "base = (if ignoreHeaders \<noteq> Some True \<and> \<not> isGoogle accessStore model
              then [(lit ''Content-Type'', lit ''application/json''),
                    (lit ''x-requested-with'', lit ''XMLHttpRequest''),
                    (lit ''Accept'', lit ''application/json'')]
              else [])"
  have "map_of (getHeaders pfx accessStore model ignoreHeaders) k = map_of base k"
    unfolding getHeaders_def Let_def base_def [symmetric]
    using assms by (simp add: update_conv')
  then show ?thesis
    by (simp only: base_def)
qed

text \<open>
  C4 (amended). With the ignore-headers flag unset (absent or false) and a model that does
  not resolve to the Google family (its name does not start with \<^verbatim>\<open>gemini\<close>, or the
  override flag is set), the returned mapping contains the three baseline headers
  \<^verbatim>\<open>Content-Type\<close>, \<^verbatim>\<open>x-requested-with\<close> and \<^verbatim>\<open>Accept\<close> with their JSON values.
\<close>

theorem getHeaders_baseline:
  assumes "ignoreHeaders \<noteq> Some True" and "\<not> isGoogle accessStore model"
  shows "map_of (getHeaders pfx accessStore model ignoreHeaders) (lit ''Content-Type'')
           = Some (lit ''application/json'')
       \<and> map_of (getHeaders pfx accessStore model ignoreHeaders) (lit ''x-requested-with'')
           = Some (lit ''XMLHttpRequest'')
       \<and> map_of (getHeaders pfx accessStore model ignoreHeaders) (lit ''Accept'')
           = Some (lit ''application/json'')"
  using assms
  by (simp add: getHeaders_keeps_baseline baseline_names_distinct)

theorem getHeaders_baseline_witness:
  "None \<noteq> Some True
   \<and> \<not> isGoogle \<lparr>provider = Azure, openaiApiKey = [], azureApiKey = lit ''az-1'',
        googleApiKey = [], accessCode = [], isUseOpenAIEndpointForAllModels = True,
        enabledAccessControl = False\<rparr> (lit ''gemini-pro'')
   \<and> map_of (getHeaders (lit ''nk-'')
        \<lparr>provider = Azure, openaiApiKey = [], azureApiKey = lit ''az-1'',
         googleApiKey = [], accessCode = [], isUseOpenAIEndpointForAllModels = True,
         enabledAccessControl = False\<rparr> (lit ''gemini-pro'') None) (lit ''Content-Type'')
       = Some (lit ''application/json'')
   \<and> map_of (getHeaders (lit ''nk-'')
        \<lparr>provider = Azure, openaiApiKey = [], azureApiKey = lit ''az-1'',
         googleApiKey = [], accessCode = [], isUseOpenAIEndpointForAllModels = True,
         enabledAccessControl = False\<rparr> (lit ''gemini-pro'') None) (lit ''x-requested-with'')
       = Some (lit ''XMLHttpRequest'')
   \<and> map_of (getHeaders (lit ''nk-'')
        \<lparr>provider = Azure, openaiApiKey = [], azureApiKey = lit ''az-1'',
         googleApiKey = [], accessCode = [], isUseOpenAIEndpointForAllModels = True,
         enabledAccessControl = False\<rparr> (lit ''gemini-pro'') None) (lit ''Accept'')
       = Some (lit ''application/json'')"
proof -
  let ?st = "\<lparr>provider = Azure, openaiApiKey = [], azureApiKey = lit ''az-1'',
         googleApiKey = [], accessCode = [], isUseOpenAIEndpointForAllModels = True,
         enabledAccessControl = False\<rparr>"
  have i: "(None :: bool option) \<noteq> Some True" by simp
  have g: "\<not> isGoogle ?st (lit ''gemini-pro'')" by (simp add: isGoogle_def)
  show ?thesis
    using g getHeaders_baseline [OF i g, where pfx = "lit ''nk-''"]
    by simp
qed

text \<open>
  For a model of the Google family the baseline headers are left out, although the
  ignore-headers flag is unset.
\<close>

theorem getHeaders_baseline_counterexample:
  "map_of (getHeaders (lit ''nk-'')
      \<lparr>provider = OtherServiceProvider (lit ''Google''), openaiApiKey = [], azureApiKey = [],
       googleApiKey = lit ''AIza-1'', accessCode = [], isUseOpenAIEndpointForAllModels = False,
       enabledAccessControl = False\<rparr> (lit ''gemini-pro'') None) (lit ''Content-Type'') = None
   \<and> map_of (getHeaders (lit ''nk-'')
      \<lparr>provider = OtherServiceProvider (lit ''Google''), openaiApiKey = [], azureApiKey = [],
       googleApiKey = lit ''AIza-1'', accessCode = [], isUseOpenAIEndpointForAllModels = False,
       enabledAccessControl = False\<rparr> (lit ''gemini-pro'') None) (lit ''x-requested-with'') = None
   \<and> map_of (getHeaders (lit ''nk-'')
      \<lparr>provider = OtherServiceProvider (lit ''Google''), openaiApiKey = [], azureApiKey = [],
       googleApiKey = lit ''AIza-1'', accessCode = [], isUseOpenAIEndpointForAllModels = False,
       enabledAccessControl = False\<rparr> (lit ''gemini-pro'') None) (lit ''Accept'') = None"
  by (simp add: getHeaders_def Let_def validString_def apiKey_def makeBearer_def isGoogle_def
      isAzure_def lit_def trim_def isWhiteSpace_def)

lemma getHeaders_azure_key:
  assumes "isAzure accessStore" and "\<not> isGoogle accessStore model"
    and "validString (apiKey accessStore model)"
  shows "map_of (getHeaders pfx accessStore model ignoreHeaders)
         = (map_of (if ignoreHeaders \<noteq> Some True
              then [(lit ''Content-Type'', lit ''application/json''),
                    (lit ''x-requested-with'', lit ''XMLHttpRequest''),
                    (lit ''Accept'', lit ''application/json'')]
              else []))
            (lit ''Authorization'' \<mapsto> trim (apiKey accessStore model),
             lit ''api-key'' \<mapsto> trim (apiKey accessStore model))"
proof -
  define base :: Headers where "base = (if ignoreHeaders \<noteq> Some True \<and> \<not> isGoogle accessStore model
              then [(lit ''Content-Type'', lit ''application/json''),
                    (lit ''x-requested-with'', lit ''XMLHttpRequest''),
                    (lit ''Accept'', lit ''application/json'')]
              else [])"
  have "map_of (getHeaders pfx accessStore model ignoreHeaders)
        = (map_of base)(lit ''Authorization'' \<mapsto> trim (apiKey accessStore model),
             lit ''api-key'' \<mapsto> trim (apiKey accessStore model))"
    unfolding getHeaders_def Let_def base_def [symmetric]
    using assms by (simp add: update_conv' makeBearer_def)
  then show ?thesis
    using assms(2) by (simp only: base_def simp_thms)
qed

text \<open>
  C5 (amended). When the selected provider is Azure, the model does not resolve to the
  Google family and the Azure API key is non-empty, the returned mapping contains both
  \<^verbatim>\<open>Authorization\<close> and \<^verbatim>\<open>api-key\<close>, and both hold the same value: the trimmed key,
  without a \<^verbatim>\<open>Bearer \<close> prefix.
\<close>

theorem getHeaders_azure_key_twice:
  assumes "provider accessStore = Azure" and "\<not> isGoogle accessStore model"
    and "azureApiKey accessStore \<noteq> []"
  shows "map_of (getHeaders pfx accessStore model ignoreHeaders) (lit ''Authorization'')
           = Some (trim (azureApiKey accessStore))
       \<and> map_of (getHeaders pfx accessStore model ignoreHeaders) (lit ''api-key'')
           = Some (trim (azureApiKey accessStore))"
proof -
  have a: "isAzure accessStore"
    using assms(1) by (simp add: isAzure_def)
  have k: "apiKey accessStore model = azureApiKey accessStore"
    using a assms(2) by (simp add: apiKey_def)
  have v: "validString (apiKey accessStore model)"
    using assms(3) by (simp add: k validString_iff)
  show ?thesis
    by (simp add: getHeaders_azure_key [OF a assms(2) v] k header_names_distinct)
qed

theorem getHeaders_azure_key_twice_witness:
  "provider \<lparr>provider = Azure, openaiApiKey = [], azureApiKey = lit '' az-key1 '',
        googleApiKey = [], accessCode = [], isUseOpenAIEndpointForAllModels = False,
        enabledAccessControl = False\<rparr> = Azure
   \<and> \<not> isGoogle \<lparr>provider = Azure, openaiApiKey = [], azureApiKey = lit '' az-key1 '',
        googleApiKey = [], accessCode = [], isUseOpenAIEndpointForAllModels = False,
        enabledAccessControl = False\<rparr> (lit ''gpt-4'')
   \<and> map_of (getHeaders (lit ''nk-'')
        \<lparr>provider = Azure, openaiApiKey = [], azureApiKey = lit '' az-key1 '',
         googleApiKey = [], accessCode = [], isUseOpenAIEndpointForAllModels = False,
         enabledAccessControl = False\<rparr> (lit ''gpt-4'') None) (lit ''Authorization'')
       = Some (lit ''az-key1'')
   \<and> map_of (getHeaders (lit ''nk-'')
        \<lparr>provider = Azure, openaiApiKey = [], azureApiKey = lit '' az-key1 '',
         googleApiKey = [], accessCode = [], isUseOpenAIEndpointForAllModels = False,
         enabledAccessControl = False\<rparr> (lit ''gpt-4'') None) (lit ''api-key'')
       = Some (lit ''az-key1'')"
proof -
  let ?st = "\<lparr>provider = Azure, openaiApiKey = [], azureApiKey = lit '' az-key1 '',
         googleApiKey = [], accessCode = [], isUseOpenAIEndpointForAllModels = False,
         enabledAccessControl = False\<rparr>"
  have p: "provider ?st = Azure" by simp
  have g: "\<not> isGoogle ?st (lit ''gpt-4'')" by (simp add: isGoogle_def lit_def)
  have k: "azureApiKey ?st \<noteq> []" by (simp add: lit_def)
  show ?thesis
    using g getHeaders_azure_key_twice [OF p g k, where pfx = "lit ''nk-''"
        and ignoreHeaders = None]
    by (simp add: lit_def trim_def isWhiteSpace_def)
qed

text \<open>
  With Azure selected and a Gemini model, the key in use is the Google key: it goes
  under \<^verbatim>\<open>x-goog-api-key\<close> and \<^verbatim>\<open>api-key\<close>, and there is no \<^verbatim>\<open>Authorization\<close> entry.
\<close>

theorem getHeaders_azure_gemini_counterexample:
  "map_of (getHeaders (lit ''nk-'')
      \<lparr>provider = Azure, openaiApiKey = [], azureApiKey = lit ''az-key1'',
       googleApiKey = lit ''AIza-1'', accessCode = [], isUseOpenAIEndpointForAllModels = False,
       enabledAccessControl = False\<rparr> (lit ''gemini-pro'') None) (lit ''Authorization'') = None
   \<and> map_of (getHeaders (lit ''nk-'')
      \<lparr>provider = Azure, openaiApiKey = [], azureApiKey = lit ''az-key1'',
       googleApiKey = lit ''AIza-1'', accessCode = [], isUseOpenAIEndpointForAllModels = False,
       enabledAccessControl = False\<rparr> (lit ''gemini-pro'') None) (lit ''api-key'')
     = Some (lit ''AIza-1'')"
  by (simp add: getHeaders_def Let_def validString_def apiKey_def makeBearer_def isGoogle_def
      isAzure_def lit_def trim_def isWhiteSpace_def)

text \<open>
  C6. When the resolved API key is empty and access control is disabled or the access code
  is empty, \<^verbatim>\<open>getHeaders\<close> returns the baseline headers or the empty mapping (it has no
  failing path), and the result has no entry \<^verbatim>\<open>Authorization\<close>, \<^verbatim>\<open>x-goog-api-key\<close> or
  \<^verbatim>\<open>api-key\<close>.
\<close>

theorem getHeaders_no_credential:
  assumes "apiKey accessStore model = []"
    and "\<not> enabledAccessControl accessStore \<or> accessCode accessStore = []"
  shows "getHeaders pfx accessStore model ignoreHeaders
           = (if ignoreHeaders \<noteq> Some True \<and> \<not> isGoogle accessStore model
              then [(lit ''Content-Type'', lit ''application/json''),
                    (lit ''x-requested-with'', lit ''XMLHttpRequest''),
                    (lit ''Accept'', lit ''application/json'')]
              else [])
       \<and> map_of (getHeaders pfx accessStore model ignoreHeaders) (lit ''Authorization'') = None
       \<and> map_of (getHeaders pfx accessStore model ignoreHeaders) (lit ''x-goog-api-key'') = None
       \<and> map_of (getHeaders pfx accessStore model ignoreHeaders) (lit ''api-key'') = None"
proof -
  have n: "\<not> validString (apiKey accessStore model)"
    using assms(1) by (simp add: validString_iff)
  have c: "\<not> (enabledAccessControl accessStore \<and> validString (accessCode accessStore))"
    using assms(2) by (auto simp add: validString_iff)
  show ?thesis
    by (simp add: getHeaders_nothing [OF n c] baseline_names_distinct [THEN not_sym])
qed

theorem getHeaders_no_credential_witness:
  "apiKey \<lparr>provider = OtherServiceProvider (lit ''OpenAI''), openaiApiKey = [],
        azureApiKey = lit ''az-key1'', googleApiKey = lit ''AIza-1'', accessCode = lit ''abc'',
        isUseOpenAIEndpointForAllModels = False, enabledAccessControl = False\<rparr>
        (lit ''gpt-4'') = []
   \<and> map_of (getHeaders (lit ''nk-'')
        \<lparr>provider = OtherServiceProvider (lit ''OpenAI''), openaiApiKey = [],
         azureApiKey = lit ''az-key1'', googleApiKey = lit ''AIza-1'', accessCode = lit ''abc'',
         isUseOpenAIEndpointForAllModels = False, enabledAccessControl = False\<rparr>
        (lit ''gpt-4'') None) (lit ''Authorization'') = None
   \<and> map_of (getHeaders (lit ''nk-'')
        \<lparr>provider = OtherServiceProvider (lit ''OpenAI''), openaiApiKey = [],
         azureApiKey = lit ''az-key1'', googleApiKey = lit ''AIza-1'', accessCode = lit ''abc'',
         isUseOpenAIEndpointForAllModels = False, enabledAccessControl = False\<rparr>
        (lit ''gpt-4'') None) (lit ''x-goog-api-key'') = None
   \<and> map_of (getHeaders (lit ''nk-'')
        \<lparr>provider = OtherServiceProvider (lit ''OpenAI''), openaiApiKey = [],
         azureApiKey = lit ''az-key1'', googleApiKey = lit ''AIza-1'', accessCode = lit ''abc'',
         isUseOpenAIEndpointForAllModels = False, enabledAccessControl = False\<rparr>
        (lit ''gpt-4'') None) (lit ''api-key'') = None
   \<and> getHeaders (lit ''nk-'')
        \<lparr>provider = OtherServiceProvider (lit ''OpenAI''), openaiApiKey = [],
         azureApiKey = lit ''az-key1'', googleApiKey = lit ''AIza-1'', accessCode = lit ''abc'',
         isUseOpenAIEndpointForAllModels = False, enabledAccessControl = False\<rparr>
        (lit ''gpt-4'') None
       = [(lit ''Content-Type'', lit ''application/json''),
          (lit ''x-requested-with'', lit ''XMLHttpRequest''),
          (lit ''Accept'', lit ''application/json'')]"
proof -
  let ?st = "\<lparr>provider = OtherServiceProvider (lit ''OpenAI''), openaiApiKey = [],
         azureApiKey = lit ''az-key1'', googleApiKey = lit ''AIza-1'', accessCode = lit ''abc'',
         isUseOpenAIEndpointForAllModels = False, enabledAccessControl = False\<rparr>"
  have g: "\<not> isGoogle ?st (lit ''gpt-4'')" by (simp add: isGoogle_def lit_def)
  have k: "apiKey ?st (lit ''gpt-4'') = []"
    using g by (simp add: apiKey_def isAzure_def)
  have c: "\<not> enabledAccessControl ?st \<or> accessCode ?st = []" by simp
  show ?thesis
    using k g getHeaders_no_credential [OF k c, where pfx = "lit ''nk-''"
        and ignoreHeaders = None]
    by (simp add: baseline_names_distinct [THEN not_sym])
qed

text \<open>
  C10. A resolved API key that is non-empty and consists of white space only still shadows
  the access code: the result is the same for every access code, prefix and answer of
  \<^verbatim>\<open>enabledAccessControl()\<close>. The credential is the trimmed key, which is empty: on the
  generic bearer path the header value is exactly \<^verbatim>\<open>Bearer \<close>.
\<close>

theorem getHeaders_whitespace_key:
  assumes "apiKey accessStore model \<noteq> []"
    and "\<forall>c \<in> set (apiKey accessStore model). isWhiteSpace c"
  shows "getHeaders pfx' (accessStore\<lparr>accessCode := code, enabledAccessControl := enabled\<rparr>)
           model ignoreHeaders
         = getHeaders pfx accessStore model ignoreHeaders
       \<and> map_of (getHeaders pfx accessStore model ignoreHeaders)
           (if isGoogle accessStore model then lit ''x-goog-api-key'' else lit ''Authorization'')
         = Some (if isGoogle accessStore model \<or> isAzure accessStore then [] else lit ''Bearer '')"
proof -
  have v: "validString (apiKey accessStore model)"
    using assms(1) by (simp add: validString_iff)
  have t: "trim (apiKey accessStore model) = []"
    using assms(2) by (rule trim_all_white)
  show ?thesis
    using getHeaders_key_shadows_access_code [OF v] getHeaders_key_entry [OF v]
    by (simp add: makeBearer_def t)
qed

theorem getHeaders_whitespace_key_witness:
  "apiKey \<lparr>provider = OtherServiceProvider (lit ''OpenAI''), openaiApiKey = [0x20, 0x09, 0x3000],
        azureApiKey = [], googleApiKey = [], accessCode = [],
        isUseOpenAIEndpointForAllModels = False, enabledAccessControl = False\<rparr>
        (lit ''gpt-4'') \<noteq> []
   \<and> getHeaders (lit ''nk-'')
        \<lparr>provider = OtherServiceProvider (lit ''OpenAI''), openaiApiKey = [0x20, 0x09, 0x3000],
         azureApiKey = [], googleApiKey = [], accessCode = lit ''abc'',
         isUseOpenAIEndpointForAllModels = False, enabledAccessControl = True\<rparr>
        (lit ''gpt-4'') None
     = getHeaders (lit ''nk-'')
        \<lparr>provider = OtherServiceProvider (lit ''OpenAI''), openaiApiKey = [0x20, 0x09, 0x3000],
         azureApiKey = [], googleApiKey = [], accessCode = [],
         isUseOpenAIEndpointForAllModels = False, enabledAccessControl = False\<rparr>
        (lit ''gpt-4'') None
   \<and> map_of (getHeaders (lit ''nk-'')
        \<lparr>provider = OtherServiceProvider (lit ''OpenAI''), openaiApiKey = [0x20, 0x09, 0x3000],
         azureApiKey = [], googleApiKey = [], accessCode = lit ''abc'',
         isUseOpenAIEndpointForAllModels = False, enabledAccessControl = True\<rparr>
        (lit ''gpt-4'') None) (lit ''Authorization'') = Some (lit ''Bearer '')"
proof -
  let ?st = "\<lparr>provider = OtherServiceProvider (lit ''OpenAI''), openaiApiKey = [0x20, 0x09, 0x3000],
         azureApiKey = [], googleApiKey = [], accessCode = [],
         isUseOpenAIEndpointForAllModels = False, enabledAccessControl = False\<rparr>"
  have g: "\<not> isGoogle ?st (lit ''gpt-4'')" by (simp add: isGoogle_def lit_def)
  have a: "\<not> isAzure ?st" by (simp add: isAzure_def)
  have k: "apiKey ?st (lit ''gpt-4'') = [0x20, 0x09, 0x3000]"
    using g a by (simp add: apiKey_def)
  have n: "apiKey ?st (lit ''gpt-4'') \<noteq> []"
    by (simp add: k)
  have w: "\<forall>c \<in> set (apiKey ?st (lit ''gpt-4'')). isWhiteSpace c"
    by (simp add: k isWhiteSpace_def)
  have s: "getHeaders (lit ''nk-'') (?st\<lparr>accessCode := lit ''abc'', enabledAccessControl := True\<rparr>)
             (lit ''gpt-4'') None = getHeaders (lit ''nk-'') ?st (lit ''gpt-4'') None"
    using getHeaders_whitespace_key [OF n w, where pfx = "lit ''nk-''" and pfx' = "lit ''nk-''"
        and ignoreHeaders = None and code = "lit ''abc''" and enabled = True]
    by (rule conjunct1)
  have h: "map_of (getHeaders (lit ''nk-'') ?st (lit ''gpt-4'') None) (lit ''Authorization'')
             = Some (lit ''Bearer '')"
    using getHeaders_whitespace_key [OF n w, where pfx = "lit ''nk-''" and pfx' = "lit ''nk-''"
        and ignoreHeaders = None and code = "lit ''abc''" and enabled = True] g a
    by simp
  show ?thesis
    using n s h by simp
qed


section \<open>Properties of the client facade\<close>

text \<open>
  C8. The constructor binds the GeminiPro client for the selector \<^verbatim>\<open>GeminiPro\<close>, the Claude
  client for \<^verbatim>\<open>Claude\<close>, and the OpenAI client \<^verbatim>\<open>ChatGPTApi\<close> for every other selector
  and when no selector is supplied.
\<close>

theorem ClientApi_constructor_binds:
  "llm (ClientApi_constructor (Some GeminiPro)) = GeminiProApi
   \<and> llm (ClientApi_constructor (Some Claude)) = ClaudeApi
   \<and> (selector \<noteq> GeminiPro \<and> selector \<noteq> Claude \<longrightarrow>
        llm (ClientApi_constructor (Some selector)) = ChatGPTApi)
   \<and> llm (ClientApi_constructor None) = ChatGPTApi"
  by (cases selector) (simp_all add: ClientApi_constructor_def)

theorem ClientApi_constructor_binds_witness:
  "OtherModelProvider (lit ''Ollama'') \<noteq> GeminiPro
   \<and> OtherModelProvider (lit ''Ollama'') \<noteq> Claude
   \<and> llm (ClientApi_constructor (Some (OtherModelProvider (lit ''Ollama'')))) = ChatGPTApi
   \<and> llm (ClientApi_constructor (Some GPT)) = ChatGPTApi"
  using ClientApi_constructor_binds [of "OtherModelProvider (lit ''Ollama'')"]
    ClientApi_constructor_binds [of GPT]
  by simp





lemma get_id_not_null: "resJson \<noteq> JNull \<Longrightarrow> \<exists>v. get_id resJson = Inr v"
  by (cases resJson) simp_all

lemma get_id_absent:
  assumes "resJson \<noteq> JNull"
    and "\<forall>members. resJson = JObj members \<longrightarrow> lit ''id'' \<notin> fst ` set members"
  shows "get_id resJson = Inr None"
proof (cases resJson)
  case (JObj members)
  then have "lit ''id'' \<notin> fst ` set (rev members)"
    using assms(2) by simp
  then have "map_of (rev members) (lit ''id'') = None"
    by (simp add: map_of_eq_None_iff)
  then show ?thesis
    using JObj by simp
qed (use assms(1) in simp_all)

text \<open>
  C7 (amended). Let the share endpoint answer with a JSON body. If the body is an object
  whose \<^verbatim>\<open>id\<close> is truthy and converts to a string, \<^verbatim>\<open>share\<close> resolves to
  \<^verbatim>\<open>https://shareg.pt/\<close> followed by that string; for a non-empty string id this is the id
  itself. If the body is not \<^verbatim>\<open>null\<close> and has no \<^verbatim>\<open>id\<close>, or its \<^verbatim>\<open>id\<close> is falsy, \<^verbatim>\<open>share\<close>
  resolves to \<^verbatim>\<open>undefined\<close>.
\<close>

theorem share_result:
  assumes "fetch (share_request clientConfig messages avatar) = Json resJson"
  shows "(resJson = JObj members \<and> map_of (rev members) (lit ''id'') = Some v
            \<and> truthy numTruthy (Some v) \<and> ToString numToString v = Inr s \<longrightarrow>
          share numTruthy numToString clientConfig fetch messages avatar
            = Inr (Some (lit ''https://shareg.pt/'' @ s)))
       \<and> (resJson = JObj members \<and> map_of (rev members) (lit ''id'') = Some (JStr t)
            \<and> t \<noteq> [] \<longrightarrow>
          share numTruthy numToString clientConfig fetch messages avatar
            = Inr (Some (lit ''https://shareg.pt/'' @ t)))
       \<and> (resJson \<noteq> JNull
            \<and> (\<forall>ms. resJson = JObj ms \<longrightarrow> lit ''id'' \<notin> fst ` set ms) \<longrightarrow>
          share numTruthy numToString clientConfig fetch messages avatar = Inr None)
       \<and> (resJson = JObj members \<and> map_of (rev members) (lit ''id'') = Some v
            \<and> \<not> truthy numTruthy (Some v) \<longrightarrow>
          share numTruthy numToString clientConfig fetch messages avatar = Inr None)"
proof (intro conjI impI)
  assume "resJson = JObj members \<and> map_of (rev members) (lit ''id'') = Some v
            \<and> truthy numTruthy (Some v) \<and> ToString numToString v = Inr s"
  then show "share numTruthy numToString clientConfig fetch messages avatar
            = Inr (Some (lit ''https://shareg.pt/'' @ s))"
    using assms by (simp add: share_def)
next
  assume "resJson = JObj members \<and> map_of (rev members) (lit ''id'') = Some (JStr t) \<and> t \<noteq> []"
  then show "share numTruthy numToString clientConfig fetch messages avatar
            = Inr (Some (lit ''https://shareg.pt/'' @ t))"
    using assms by (simp add: share_def)
next
  assume "resJson \<noteq> JNull \<and> (\<forall>ms. resJson = JObj ms \<longrightarrow> lit ''id'' \<notin> fst ` set ms)"
  then have "get_id resJson = Inr None"
    using get_id_absent by blast
  then show "share numTruthy numToString clientConfig fetch messages avatar = Inr None"
    using assms by (simp add: share_def)
next
  assume "resJson = JObj members \<and> map_of (rev members) (lit ''id'') = Some v
            \<and> \<not> truthy numTruthy (Some v)"
  then show "share numTruthy numToString clientConfig fetch messages avatar = Inr None"
    using assms by (simp add: share_def)
qed

theorem share_result_witness:
  "share (\<lambda>n::int. n \<noteq> 0) (\<lambda>n. lit ''7'') None
     (\<lambda>req. Json (JObj [(lit ''id'', JStr (lit ''abc123''))]))
     [\<lparr>role = User, content = Text (lit ''hi'')\<rparr>,
      \<lparr>role = Assistant, content = Text (lit ''hello'')\<rparr>] None
     = Inr (Some (lit ''https://shareg.pt/abc123''))
   \<and> share (\<lambda>n::int. n \<noteq> 0) (\<lambda>n. lit ''7'') None
     (\<lambda>req. Json (JObj [(lit ''id'', JNum 7)]))
     [\<lparr>role = User, content = Text (lit ''hi'')\<rparr>,
      \<lparr>role = Assistant, content = Text (lit ''hello'')\<rparr>] None
     = Inr (Some (lit ''https://shareg.pt/7''))
   \<and> share (\<lambda>n::int. n \<noteq> 0) (\<lambda>n. lit ''7'') None
     (\<lambda>req. Json (JObj []))
     [\<lparr>role = User, content = Text (lit ''hi'')\<rparr>,
      \<lparr>role = Assistant, content = Text (lit ''hello'')\<rparr>] None
     = Inr None
   \<and> share (\<lambda>n::int. n \<noteq> 0) (\<lambda>n. lit ''7'') None
     (\<lambda>req. Json (JObj [(lit ''id'', JStr [])]))
     [\<lparr>role = User, content = Text (lit ''hi'')\<rparr>,
      \<lparr>role = Assistant, content = Text (lit ''hello'')\<rparr>] None
     = Inr None"
proof -
  let ?ms = "[\<lparr>role = User, content = Text (lit ''hi'')\<rparr>,
      \<lparr>role = Assistant, content = Text (lit ''hello'')\<rparr>]"
  let ?f1 = "\<lambda>req::Request. Json (JObj [(lit ''id'', JStr (lit ''abc123'') :: int json)])"
  let ?f2 = "\<lambda>req::Request. Json (JObj [(lit ''id'', JNum (7::int))])"
  let ?f3 = "\<lambda>req::Request. Json (JObj [] :: int json)"
  let ?f4 = "\<lambda>req::Request. Json (JObj [(lit ''id'', JStr [] :: int json)])"
  have a: "?f1 (share_request None ?ms None) = Json (JObj [(lit ''id'', JStr (lit ''abc123''))])"
    by simp
  have b: "?f2 (share_request None ?ms None) = Json (JObj [(lit ''id'', JNum 7)])"
    by simp
  have c: "?f3 (share_request None ?ms None) = Json (JObj [])"
    by simp
  have d: "?f4 (share_request None ?ms None) = Json (JObj [(lit ''id'', JStr [])])"
    by simp
  have t: "lit ''abc123'' \<noteq> []" by (simp add: lit_def)
  have "share (\<lambda>n::int. n \<noteq> 0) (\<lambda>n. lit ''7'') None ?f1 ?ms None
          = Inr (Some (lit ''https://shareg.pt/'' @ lit ''abc123''))"
    using share_result [OF a, where members = "[(lit ''id'', JStr (lit ''abc123''))]"
        and t = "lit ''abc123''"] t
    by simp
  moreover have "share (\<lambda>n::int. n \<noteq> 0) (\<lambda>n. lit ''7'') None ?f2 ?ms None
          = Inr (Some (lit ''https://shareg.pt/'' @ lit ''7''))"
    using share_result [OF b, where members = "[(lit ''id'', JNum 7)]" and v = "JNum 7"
        and s = "lit ''7''" and numTruthy = "\<lambda>n::int. n \<noteq> 0" and numToString = "\<lambda>n. lit ''7''"]
    by simp
  moreover have "share (\<lambda>n::int. n \<noteq> 0) (\<lambda>n. lit ''7'') None ?f3 ?ms None = Inr None"
    using share_result [OF c]
    by simp
  moreover have "share (\<lambda>n::int. n \<noteq> 0) (\<lambda>n. lit ''7'') None ?f4 ?ms None = Inr None"
    using share_result [OF d, where members = "[(lit ''id'', JStr [])]" and v = "JStr []"
        and numTruthy = "\<lambda>n::int. n \<noteq> 0" and numToString = "\<lambda>n. lit ''7''"]
    by simp
  ultimately show ?thesis
    by (simp add: lit_def)
qed

text \<open>
  \<^verbatim>\<open>share\<close> has no handler of its own: on the body \<^verbatim>\<open>null\<close>, which has no \<^verbatim>\<open>id\<close>, reading
  the property throws, and on a truthy \<^verbatim>\<open>id\<close> that is an object with a member
  \<^verbatim>\<open>toString\<close>, the template literal throws.
\<close>

theorem share_rejects_counterexample:
  "share (\<lambda>n::int. n \<noteq> 0) (\<lambda>n. lit ''7'') None (\<lambda>req. Json JNull) [] None = Inl TypeError
   \<and> share (\<lambda>n::int. n \<noteq> 0) (\<lambda>n. lit ''7'') None
       (\<lambda>req. Json (JObj [(lit ''id'', JObj [(lit ''toString'', JBool True)])])) [] None
     = Inl TypeError"
  by (simp add: share_def)

end
